theory Spec2Isabelle
  imports Complex_Main "HOL-Library.Word" "HOL-Library.AList"
begin

section \<open>Python values used by \<open>xiaozhi_app/android/api.py\<close>\<close>

text \<open>
  A Python \<open>str\<close> is a sequence of Unicode code points, a \<open>bytes\<close>/\<open>bytearray\<close> value a
  sequence of 8-bit integers. \<open>lit\<close> turns an ASCII literal of the source into a \<open>str\<close>.
\<close>

type_synonym byte = "8 word"
type_synonym str = "nat list"

definition lit :: "string \<Rightarrow> str" where
  "lit s = map of_char s"

text \<open>
  The values \<open>json.loads\<close> returns and \<open>json.dumps\<close> accepts: \<open>None\<close>, \<open>bool\<close>, \<open>int\<close>,
  \<open>float\<close>, \<open>str\<close>, \<open>list\<close> and \<open>dict\<close> with \<open>str\<close> keys (an association list in insertion
  order; a dict has every key once). The program never computes with a \<open>float\<close>: it only
  tests its truth value, stores it and prints it, so a float is represented by a real
  number (\<open>NaN\<close> and the infinities, which \<open>json.loads\<close> accepts, are true like every float
  other than zero).
\<close>

datatype json =
    JNull
  | JBool bool
  | JInt int
  | JFloat real
  | JStr str
  | JArr "json list"
  | JObj "(str \<times> json) list"

text \<open>
  The exceptions that can travel through the client. All of them are subclasses of
  \<open>Exception\<close>. \<open>InvalidProvider\<close> and \<open>InvalidRequest\<close> are the two \<open>ValueError\<close>s of
  \<open>_validate_parameters\<close> (their message also lists the allowed set, in the iteration order
  of a Python set).
\<close>

datatype exn =
    SocketTimeout
  | ConnectionRefusedError
  | OSError str
  | JSONDecodeError
  | UnicodeDecodeError
  | UnicodeEncodeError
  | TypeError
  | KeyError str
  | AttributeError
  | ValueError str
  | OverflowError str
  | NotImplementedError str
  | InvalidProvider str
  | InvalidRequest str

subsection \<open>Operators on values\<close>

text \<open>\<open>key in s\<close> for two strings: \<open>key\<close> occurs in \<open>s\<close> as a contiguous substring.\<close>

fun is_substring :: "str \<Rightarrow> str \<Rightarrow> bool" where
  "is_substring key [] = (key = [])"
| "is_substring key (c # cs) = (take (length key) (c # cs) = key \<or> is_substring key cs)"

text \<open>
  \<open>key in v\<close> with a \<open>str\<close> key: membership of the key in a dict, of an equal element in a
  list, of a substring in a str; every other value is not iterable.
\<close>

definition py_contains :: "str \<Rightarrow> json \<Rightarrow> exn + bool" where
  "py_contains key v =
     (case v of
        JObj kvs \<Rightarrow> Inr (map_of kvs key \<noteq> None)
      | JArr xs \<Rightarrow> Inr (List.member xs (JStr key))
      | JStr s \<Rightarrow> Inr (is_substring key s)
      | _ \<Rightarrow> Inl TypeError)"

text \<open>
  \<open>v[key]\<close> with a \<open>str\<close> key: a dict looks the key up (\<open>KeyError\<close> when absent); a list or
  a str wants integer indices and every other value is not subscriptable (\<open>TypeError\<close>).
\<close>

definition py_getitem :: "json \<Rightarrow> str \<Rightarrow> exn + json" where
  "py_getitem v key =
     (case v of
        JObj kvs \<Rightarrow> (case map_of kvs key of None \<Rightarrow> Inl (KeyError key) | Some x \<Rightarrow> Inr x)
      | _ \<Rightarrow> Inl TypeError)"

text \<open>
  \<open>for x in v\<close>: the elements of a list, the keys of a dict, the one-character strings of
  a str; every other value is not iterable.
\<close>

definition py_iter :: "json \<Rightarrow> exn + json list" where
  "py_iter v =
     (case v of
        JArr xs \<Rightarrow> Inr xs
      | JObj kvs \<Rightarrow> Inr (map (\<lambda>kv. JStr (fst kv)) kvs)
      | JStr s \<Rightarrow> Inr (map (\<lambda>c. JStr [c]) s)
      | _ \<Rightarrow> Inl TypeError)"

text \<open>The truth value of a value (\<open>not v\<close> is its negation).\<close>

definition py_truthy :: "json \<Rightarrow> bool" where
  "py_truthy v =
     (case v of
        JNull \<Rightarrow> False
      | JBool b \<Rightarrow> b
      | JInt i \<Rightarrow> i \<noteq> 0
      | JFloat x \<Rightarrow> x \<noteq> 0
      | JStr s \<Rightarrow> s \<noteq> []
      | JArr xs \<Rightarrow> xs \<noteq> []
      | JObj kvs \<Rightarrow> kvs \<noteq> [])"

subsection \<open>UTF-8 and whitespace\<close>

text \<open>
  \<open>bytearray.decode()\<close>: strict UTF-8. A byte sequence that is not well-formed UTF-8
  (a stray continuation byte, an overlong form, a surrogate, a truncated sequence, a code
  point above \<open>0x10FFFF\<close>) raises \<open>UnicodeDecodeError\<close>, here \<open>None\<close>.
\<close>

definition is_cont :: "byte \<Rightarrow> bool" where
  "is_cont b = (0x80 \<le> b \<and> b \<le> 0xBF)"

definition second_ok :: "byte \<Rightarrow> byte \<Rightarrow> bool" where
  "second_ok b c =
     (if b = 0xE0 then 0xA0 \<le> c \<and> c \<le> 0xBF
      else if b = 0xED then 0x80 \<le> c \<and> c \<le> 0x9F
      else if b = 0xF0 then 0x90 \<le> c \<and> c \<le> 0xBF
      else if b = 0xF4 then 0x80 \<le> c \<and> c \<le> 0x8F
      else is_cont c)"

fun utf8_decode :: "byte list \<Rightarrow> str option" where
  "utf8_decode [] = Some []"
| "utf8_decode (b # bs) =
     (if b < 0x80 then map_option ((#) (unat b)) (utf8_decode bs)
      else if 0xC2 \<le> b \<and> b \<le> 0xDF then
        (case bs of
           c1 # r \<Rightarrow>
             if is_cont c1
             then map_option ((#) ((unat b - 0xC0) * 64 + (unat c1 - 0x80))) (utf8_decode r)
             else None
         | _ \<Rightarrow> None)
      else if 0xE0 \<le> b \<and> b \<le> 0xEF then
        (case bs of
           c1 # c2 # r \<Rightarrow>
             if second_ok b c1 \<and> is_cont c2
             then map_option
                    ((#) ((unat b - 0xE0) * 4096 + (unat c1 - 0x80) * 64 + (unat c2 - 0x80)))
                    (utf8_decode r)
             else None
         | _ \<Rightarrow> None)
      else if 0xF0 \<le> b \<and> b \<le> 0xF4 then
        (case bs of
           c1 # c2 # c3 # r \<Rightarrow>
             if second_ok b c1 \<and> is_cont c2 \<and> is_cont c3
             then map_option
                    ((#) ((unat b - 0xF0) * 262144 + (unat c1 - 0x80) * 4096
                          + (unat c2 - 0x80) * 64 + (unat c3 - 0x80)))
                    (utf8_decode r)
             else None
         | _ \<Rightarrow> None)
      else None)"

text \<open>
  \<open>str.encode()\<close>: UTF-8; a surrogate code point raises \<open>UnicodeEncodeError\<close>, here \<open>None\<close>
  (a number from \<open>0x110000\<close> on is no code point of a Python str).
\<close>

definition encode_char :: "nat \<Rightarrow> byte list option" where
  "encode_char c =
     (if c < 0x80 then Some [of_nat c]
      else if c < 0x800 then Some [of_nat (0xC0 + c div 64), of_nat (0x80 + c mod 64)]
      else if 0xD800 \<le> c \<and> c \<le> 0xDFFF then None
      else if c < 0x10000 then
        Some [of_nat (0xE0 + c div 4096), of_nat (0x80 + c div 64 mod 64),
              of_nat (0x80 + c mod 64)]
      else if c < 0x110000 then
        Some [of_nat (0xF0 + c div 262144), of_nat (0x80 + c div 4096 mod 64),
              of_nat (0x80 + c div 64 mod 64), of_nat (0x80 + c mod 64)]
      else None)"

fun utf8_encode :: "str \<Rightarrow> byte list option" where
  "utf8_encode [] = Some []"
| "utf8_encode (c # cs) =
     (case encode_char c of
        None \<Rightarrow> None
      | Some bs \<Rightarrow> map_option ((@) bs) (utf8_encode cs))"

text \<open>\<open>str.strip()\<close> removes the code points for which \<open>str.isspace\<close> holds at both ends.\<close>

definition py_isspace :: "nat \<Rightarrow> bool" where
  "py_isspace c =
     ((9 \<le> c \<and> c \<le> 13) \<or> (28 \<le> c \<and> c \<le> 32) \<or> c = 0x85 \<or> c = 0xA0 \<or> c = 0x1680
      \<or> (0x2000 \<le> c \<and> c \<le> 0x200A) \<or> c = 0x2028 \<or> c = 0x2029 \<or> c = 0x202F
      \<or> c = 0x205F \<or> c = 0x3000)"

definition strip :: "str \<Rightarrow> str" where
  "strip s = rev (dropWhile py_isspace (rev (dropWhile py_isspace s)))"

subsection \<open>Library functions taken as parameters\<close>

text \<open>
  What the program calls in the Python library and does not define:
  \<open>loads\<close> is \<open>json.loads\<close> on a str (\<open>None\<close> when it raises \<open>JSONDecodeError\<close>);
  \<open>lower\<close> is \<open>str.lower\<close>;
  \<open>str_of\<close> is the text an f-string gives a value that is not a str;
  \<open>exn_text\<close> is \<open>str(e)\<close> of an exception;
  \<open>float_repr\<close> is the text \<open>json.dumps\<close> writes for a float.
\<close>

record pylib =
  loads :: "str \<Rightarrow> json option"
  lower :: "str \<Rightarrow> str"
  str_of :: "json \<Rightarrow> str"
  exn_text :: "exn \<Rightarrow> str"
  float_repr :: "real \<Rightarrow> str"

text \<open>The text of a value inside an f-string: a str stands for itself.\<close>

definition py_format :: "pylib \<Rightarrow> json \<Rightarrow> str" where
  "py_format lib v = (case v of JStr s \<Rightarrow> s | _ \<Rightarrow> str_of lib v)"

section \<open>The client object and the network\<close>

text \<open>
  The command classes: the base class \<open>TermuxRpcClient\<close> and its three subclasses with the
  attributes their constructors store (\<open>provider\<close> and \<open>request\<close>; \<open>_remove_keys\<close>, any
  value that \<open>json.dumps\<close> accepts; \<open>notification_id\<close>).
\<close>

datatype command =
    RpcClient
  | LocationCommand str str
  | NotificationListCommand json
  | NotificationRemoveCommand str

datatype socket = Socket

text \<open>
  The calls made on the socket, in order. They are recorded in the object's \<open>trace\<close>,
  which the program itself never reads: \<open>EvSend\<close> carries the bytes given to \<open>sendall\<close>,
  \<open>EvClose\<close> the value \<open>_event_stop\<close> has when \<open>close\<close> is called.
\<close>

datatype event =
    EvSocket
  | EvConnect
  | EvSend "byte list"
  | EvRecv
  | EvClose bool

text \<open>
  The object: its class and constructor arguments (\<open>kind\<close>), \<open>host\<close>, \<open>port\<close>, \<open>timeout\<close>,
  and the attributes \<open>_socket\<close>, \<open>_data\<close>, \<open>_result\<close>, \<open>_error\<close>, \<open>_event_stop\<close>. The
  error slot holds a str, or whatever value an \<open>error\<close> line carries.
\<close>

record client =
  kind :: command
  host :: str
  port :: int
  timeout :: int
  socket :: "socket option"
  data :: "byte list"
  result :: "json option"
  error :: "json option"
  event_stop :: bool
  trace :: "event list"

text \<open>
  What the network does in one conversation: whether creating the socket, looking up
  the host, connecting, sending or closing raises, the byte strings the successive \<open>recv\<close> calls return, and what
  \<open>recv\<close> does once they are used up: it returns \<open>b''\<close> (the peer closed, \<open>Eof\<close>) or raises
  (\<open>RecvRaises SocketTimeout\<close> when nothing arrives within the timeout).
\<close>

datatype recv_end = Eof | RecvRaises exn

record network =
  socket_raises :: "exn option"
  resolve_raises :: "exn option"
  connect_raises :: "exn option"
  sendall_raises :: "exn option"
  recv_chunks :: "byte list list"
  recv_end :: recv_end
  close_raises :: "exn option"

text \<open>
  A method either returns or raises; in both cases the object keeps the assignments made
  so far.
\<close>

datatype flow = Done client | Raised exn client

definition and_then :: "flow \<Rightarrow> (client \<Rightarrow> flow) \<Rightarrow> flow" where
  "and_then r f = (case r of Done st \<Rightarrow> f st | Raised e st \<Rightarrow> Raised e st)"

definition state_of :: "flow \<Rightarrow> client" where
  "state_of r = (case r of Done st \<Rightarrow> st | Raised e st \<Rightarrow> st)"

subsection \<open>\<open>TermuxRpcClient.__init__\<close>, \<open>_connect\<close>, \<open>disconnect\<close>\<close>

definition TermuxRpcClient_init :: "command \<Rightarrow> str \<Rightarrow> int \<Rightarrow> int \<Rightarrow> client" where
  "TermuxRpcClient_init k h p t =
     \<lparr>kind = k, host = h, port = p, timeout = t, socket = None, data = [], result = None,
      error = None, event_stop = False, trace = []\<rparr>"

text \<open>
  \<open>socket.settimeout\<close> with an \<open>int\<close>: a negative timeout is a \<open>ValueError\<close>, one above
  9223372036 seconds does not fit the clock's 64-bit count of nanoseconds and is an
  \<open>OverflowError\<close>.
\<close>

definition settimeout :: "int \<Rightarrow> exn option" where
  "settimeout t =
     (if t < 0 then Some (ValueError (lit ''Timeout value out of range''))
      else if 9223372036 < t
      then Some (OverflowError (lit ''timestamp too large to convert to C _PyTime_t''))
      else None)"

text \<open>
  \<open>_connect\<close>: create the socket and store it, set its timeout, connect. \<open>connect\<close> first
  looks up the host, then refuses a port outside \<open>0 .. 65535\<close> with an \<open>OverflowError\<close>,
  then connects.
\<close>

definition connect :: "network \<Rightarrow> client \<Rightarrow> flow" where
  "connect net st =
     (case socket_raises net of
        Some e \<Rightarrow> Raised e st
      | None \<Rightarrow>
          (let st1 = st\<lparr>socket := Some Socket, trace := trace st @ [EvSocket]\<rparr> in
           case settimeout (timeout st1) of
             Some e \<Rightarrow> Raised e st1
           | None \<Rightarrow>
               (let st2 = st1\<lparr>trace := trace st1 @ [EvConnect]\<rparr> in
                case resolve_raises net of
                  Some e \<Rightarrow> Raised e st2
                | None \<Rightarrow>
                    if port st2 < 0 \<or> 65535 < port st2
                    then Raised (OverflowError (lit ''connect(): port must be 0-65535.'')) st2
                    else
                      (case connect_raises net of
                         Some e \<Rightarrow> Raised e st2
                       | None \<Rightarrow> Done st2))))"

text \<open>
  \<open>disconnect\<close>: set the stop flag; if a socket is stored, close it inside
  \<open>try ... except Exception ... finally\<close>: an exception of \<open>close\<close> is logged and dropped,
  and \<open>_socket\<close> becomes \<open>None\<close> on every path.
\<close>

definition socket_close :: "network \<Rightarrow> client \<Rightarrow> flow" where
  "socket_close net st =
     (let st1 = st\<lparr>trace := trace st @ [EvClose (event_stop st)]\<rparr> in
      case close_raises net of
        Some e \<Rightarrow> Raised e st1
      | None \<Rightarrow> Done st1)"

definition disconnect :: "network \<Rightarrow> client \<Rightarrow> flow" where
  "disconnect net st =
     (let st1 = st\<lparr>event_stop := True\<rparr> in
      case socket st1 of
        None \<Rightarrow> Done st1
      | Some s \<Rightarrow>
          (case socket_close net st1 of
             Done st2 \<Rightarrow> Done (st2\<lparr>socket := None\<rparr>)
           | Raised e st2 \<Rightarrow> Done (st2\<lparr>socket := None\<rparr>)))"

subsection \<open>\<open>json.dumps\<close>\<close>

text \<open>
  \<open>json.dumps\<close> with its defaults (\<open>ensure_ascii\<close>, separators \<open>", "\<close> and \<open>": "\<close>).
  In a string, the quote and the backslash are escaped with a backslash, the control
  characters \<open>\b \f \n \r \t\<close> by their letter, and every other code point outside
  \<open>0x20 .. 0x7E\<close> as \<open>\uXXXX\<close> (a surrogate pair above \<open>0xFFFF\<close>).
\<close>

definition hex_digit :: "nat \<Rightarrow> nat" where
  "hex_digit d = (if d < 10 then 48 + d else 87 + d)"

definition u_escape :: "nat \<Rightarrow> str" where
  "u_escape n =
     [0x5C, 0x75, hex_digit (n div 4096 mod 16), hex_digit (n div 256 mod 16),
      hex_digit (n div 16 mod 16), hex_digit (n mod 16)]"

definition escape_char :: "nat \<Rightarrow> str" where
  "escape_char c =
     (if c = 0x22 then [0x5C, 0x22]
      else if c = 0x5C then [0x5C, 0x5C]
      else if c = 0x08 then [0x5C, 0x62]
      else if c = 0x0C then [0x5C, 0x66]
      else if c = 0x0A then [0x5C, 0x6E]
      else if c = 0x0D then [0x5C, 0x72]
      else if c = 0x09 then [0x5C, 0x74]
      else if 0x20 \<le> c \<and> c \<le> 0x7E then [c]
      else if c < 0x10000 then u_escape c
      else u_escape (0xD800 + (c - 0x10000) div 1024 mod 1024)
           @ u_escape (0xDC00 + (c - 0x10000) mod 1024))"

definition encode_basestring :: "str \<Rightarrow> str" where
  "encode_basestring s = [0x22] @ concat (map escape_char s) @ [0x22]"

fun join :: "str \<Rightarrow> str list \<Rightarrow> str" where
  "join sep [] = []"
| "join sep [x] = x"
| "join sep (x # y # ys) = x @ sep @ join sep (y # ys)"

function digits :: "nat \<Rightarrow> str" where
  "digits n = (if n < 10 then [48 + n] else digits (n div 10) @ [48 + n mod 10])"
  by pat_completeness auto
termination
  by (relation "measure id") auto

declare digits.simps [simp del]

definition int_repr :: "int \<Rightarrow> str" where
  "int_repr i = (if i < 0 then 0x2D # digits (nat (- i)) else digits (nat i))"

fun dumps :: "pylib \<Rightarrow> json \<Rightarrow> str" where
  "dumps lib JNull = lit ''null''"
| "dumps lib (JBool b) = (if b then lit ''true'' else lit ''false'')"
| "dumps lib (JInt i) = int_repr i"
| "dumps lib (JFloat x) = float_repr lib x"
| "dumps lib (JStr s) = encode_basestring s"
| "dumps lib (JArr xs) = lit ''['' @ join (lit '', '') (map (dumps lib) xs) @ lit '']''"
| "dumps lib (JObj kvs) =
     lit ''{''
     @ join (lit '', '')
         (map (\<lambda>kv. encode_basestring (fst kv) @ lit '': '' @ dumps lib (snd kv)) kvs)
     @ lit ''}''"

subsection \<open>\<open>to_dict\<close>, \<open>to_json\<close>, \<open>_send_request\<close>\<close>

definition API_METHOD :: "command \<Rightarrow> str option" where
  "API_METHOD k =
     (case k of
        RpcClient \<Rightarrow> None
      | LocationCommand p r \<Rightarrow> Some (lit ''Location'')
      | NotificationListCommand ks \<Rightarrow> Some (lit ''NotificationList'')
      | NotificationRemoveCommand i \<Rightarrow> Some (lit ''NotificationRemove''))"

text \<open>The base class's \<open>to_dict\<close>: \<open>not self.API_METHOD\<close> holds for \<open>None\<close> and for \<open>""\<close>.\<close>

definition TermuxRpcClient_to_dict :: "client \<Rightarrow> exn + json" where
  "TermuxRpcClient_to_dict st =
     (case API_METHOD (kind st) of
        None \<Rightarrow> Inl (NotImplementedError (lit ''API_METHOD must be defined in subclass''))
      | Some m \<Rightarrow>
          if m = [] then Inl (NotImplementedError (lit ''API_METHOD must be defined in subclass''))
          else Inr (JObj [(lit ''extras'', JObj [(lit ''api_method'', JStr m)])]))"

text \<open>
  \<open>params['extras'].update({...})\<close> and \<open>params['extras'][k] = v\<close>: the new entries are
  stored into the dict under \<open>'extras'\<close>, in order.
\<close>

definition update_extras :: "(str \<times> json) list \<Rightarrow> json \<Rightarrow> exn + json" where
  "update_extras new params =
     (case py_getitem params (lit ''extras'') of
        Inl e \<Rightarrow> Inl e
      | Inr ex \<Rightarrow>
          (case ex of
             JObj kvs \<Rightarrow>
               (case params of
                  JObj outer \<Rightarrow>
                    Inr (JObj (AList.update (lit ''extras'')
                                 (JObj (fold (\<lambda>kv. AList.update (fst kv) (snd kv)) new kvs)) outer))
                | _ \<Rightarrow> Inl TypeError)
           | _ \<Rightarrow> Inl AttributeError))"

definition to_dict :: "client \<Rightarrow> exn + json" where
  "to_dict st =
     (case kind st of
        RpcClient \<Rightarrow> TermuxRpcClient_to_dict st
      | LocationCommand p r \<Rightarrow>
          (case TermuxRpcClient_to_dict st of
             Inl e \<Rightarrow> Inl e
           | Inr params \<Rightarrow>
               update_extras [(lit ''provider'', JStr p), (lit ''request'', JStr r)] params)
      | NotificationListCommand ks \<Rightarrow>
          (case TermuxRpcClient_to_dict st of
             Inl e \<Rightarrow> Inl e
           | Inr params \<Rightarrow> update_extras [(lit ''keys'', ks)] params)
      | NotificationRemoveCommand i \<Rightarrow>
          (case TermuxRpcClient_to_dict st of
             Inl e \<Rightarrow> Inl e
           | Inr params \<Rightarrow> update_extras [(lit ''id'', JStr i)] params))"

definition to_json :: "pylib \<Rightarrow> client \<Rightarrow> exn + str" where
  "to_json lib st = (case to_dict st of Inl e \<Rightarrow> Inl e | Inr d \<Rightarrow> Inr (dumps lib d))"

text \<open>
  \<open>_send_request\<close>: with a socket stored, \<open>to_json()\<close> is evaluated (for the log line and
  for the payload), encoded, and given to \<open>sendall\<close> with one newline byte appended.
\<close>

definition send_request :: "pylib \<Rightarrow> network \<Rightarrow> client \<Rightarrow> flow" where
  "send_request lib net st =
     (case socket st of
        None \<Rightarrow> Done st
      | Some s \<Rightarrow>
          (case to_json lib st of
             Inl e \<Rightarrow> Raised e st
           | Inr text \<Rightarrow>
               (case utf8_encode text of
                  None \<Rightarrow> Raised UnicodeEncodeError st
                | Some bs \<Rightarrow>
                    (let st1 = st\<lparr>trace := trace st @ [EvSend (bs @ [10])]\<rparr> in
                     case sendall_raises net of
                       Some e \<Rightarrow> Raised e st1
                     | None \<Rightarrow> Done st1))))"

subsection \<open>The response handlers\<close>

definition handle_error :: "network \<Rightarrow> json \<Rightarrow> client \<Rightarrow> flow" where
  "handle_error net error_msg st = disconnect net (st\<lparr>error := Some error_msg\<rparr>)"

text \<open>
  \<open>_handle_permissions\<close>: for every element, the log line reads \<open>perm['permission']\<close> and
  \<open>perm['granted']\<close>; an element that is not granted sets the error and disconnects, and
  the loop goes on with the next element.
\<close>

fun permissions_loop :: "pylib \<Rightarrow> network \<Rightarrow> json list \<Rightarrow> client \<Rightarrow> flow" where
  "permissions_loop lib net [] st = Done st"
| "permissions_loop lib net (perm # rest) st =
     (case py_getitem perm (lit ''permission'') of
        Inl e \<Rightarrow> Raised e st
      | Inr name \<Rightarrow>
          (case py_getitem perm (lit ''granted'') of
             Inl e \<Rightarrow> Raised e st
           | Inr granted \<Rightarrow>
               if \<not> py_truthy granted then
                 and_then
                   (disconnect net
                      (st\<lparr>error := Some (JStr (lit ''Permission denied: '' @ py_format lib name))\<rparr>))
                   (permissions_loop lib net rest)
               else permissions_loop lib net rest st))"

definition handle_permissions :: "pylib \<Rightarrow> network \<Rightarrow> json \<Rightarrow> client \<Rightarrow> flow" where
  "handle_permissions lib net permissions st =
     (case py_iter permissions of
        Inl e \<Rightarrow> Raised e st
      | Inr perms \<Rightarrow> permissions_loop lib net perms st)"

text \<open>
  \<open>_handle_data\<close>: the base class raises \<open>NotImplementedError\<close>; the location command keeps
  a value that contains \<open>'latitude'\<close> and disconnects; the two notification commands keep
  every value and disconnect.
\<close>

definition handle_data :: "network \<Rightarrow> json \<Rightarrow> client \<Rightarrow> flow" where
  "handle_data net d st =
     (case kind st of
        RpcClient \<Rightarrow> Raised (NotImplementedError []) st
      | LocationCommand p r \<Rightarrow>
          (case py_contains (lit ''latitude'') d of
             Inl e \<Rightarrow> Raised e st
           | Inr b \<Rightarrow> if b then disconnect net (st\<lparr>result := Some d\<rparr>) else Done st)
      | NotificationListCommand ks \<Rightarrow> disconnect net (st\<lparr>result := Some d\<rparr>)
      | NotificationRemoveCommand i \<Rightarrow> disconnect net (st\<lparr>result := Some d\<rparr>))"

definition handle_response :: "pylib \<Rightarrow> network \<Rightarrow> json \<Rightarrow> client \<Rightarrow> flow" where
  "handle_response lib net d st =
     (case py_contains (lit ''error'') d of
        Inl e \<Rightarrow> Raised e st
      | Inr has_error \<Rightarrow>
          if has_error then
            (case py_getitem d (lit ''error'') of
               Inl e \<Rightarrow> Raised e st
             | Inr msg \<Rightarrow> handle_error net msg st)
          else
            (case py_contains (lit ''permissions'') d of
               Inl e \<Rightarrow> Raised e st
             | Inr has_permissions \<Rightarrow>
                 if has_permissions then
                   (case py_getitem d (lit ''permissions'') of
                      Inl e \<Rightarrow> Raised e st
                    | Inr ps \<Rightarrow> handle_permissions lib net ps st)
                 else handle_data net d st))"

text \<open>
  \<open>_process_line\<close>: \<open>json.loads\<close> and the dispatch run inside
  \<open>try ... except json.JSONDecodeError\<close>, which sets the error and returns.
\<close>

definition process_line :: "pylib \<Rightarrow> network \<Rightarrow> str \<Rightarrow> client \<Rightarrow> flow" where
  "process_line lib net line st =
     (case loads lib line of
        None \<Rightarrow> Done (st\<lparr>error := Some (JStr (lit ''Invalid JSON: '' @ line))\<rparr>)
      | Some d \<Rightarrow>
          (case handle_response lib net d st of
             Done st1 \<Rightarrow> Done st1
           | Raised e st1 \<Rightarrow>
               if e = JSONDecodeError
               then Done (st1\<lparr>error := Some (JStr (lit ''Invalid JSON: '' @ line))\<rparr>)
               else Raised e st1))"

subsection \<open>\<open>_receive_responses\<close> and \<open>run\<close>\<close>

text \<open>
  The loop \<open>for byte in response\<close>: every byte is appended to \<open>_data\<close>; at a newline byte
  the buffer is decoded and stripped, cleared, and the line is processed. The stop flag
  is not read here.
\<close>

fun feed :: "pylib \<Rightarrow> network \<Rightarrow> byte list \<Rightarrow> client \<Rightarrow> flow" where
  "feed lib net [] st = Done st"
| "feed lib net (b # bs) st =
     (let st1 = st\<lparr>data := data st @ [b]\<rparr> in
      if b = 10 then
        (case utf8_decode (data st1) of
           None \<Rightarrow> Raised UnicodeDecodeError st1
         | Some text \<Rightarrow>
             and_then (process_line lib net (strip text) (st1\<lparr>data := []\<rparr>)) (feed lib net bs))
      else feed lib net bs st1)"

text \<open>
  The loop \<open>while not self._event_stop\<close>: one \<open>recv\<close> per round. An empty result leaves
  the loop; \<open>socket.timeout\<close>, from \<open>recv\<close> or from inside the round, sets the error and
  leaves the loop; any other exception leaves the method.
\<close>

fun receive_loop :: "pylib \<Rightarrow> network \<Rightarrow> byte list list \<Rightarrow> recv_end \<Rightarrow> client \<Rightarrow> flow" where
  "receive_loop lib net [] fin st =
     (if event_stop st then Done st
      else
        (case socket st of
           None \<Rightarrow> Raised AttributeError st
         | Some s \<Rightarrow>
             (let st1 = st\<lparr>trace := trace st @ [EvRecv]\<rparr> in
              case fin of
                Eof \<Rightarrow> Done st1
              | RecvRaises e \<Rightarrow>
                  if e = SocketTimeout
                  then Done (st1\<lparr>error := Some (JStr (lit ''Receive timed out''))\<rparr>)
                  else Raised e st1)))"
| "receive_loop lib net (response # rest) fin st =
     (if event_stop st then Done st
      else
        (case socket st of
           None \<Rightarrow> Raised AttributeError st
         | Some s \<Rightarrow>
             (let st1 = st\<lparr>trace := trace st @ [EvRecv]\<rparr> in
              if response = [] then Done st1
              else
                (case feed lib net response st1 of
                   Done st2 \<Rightarrow> receive_loop lib net rest fin st2
                 | Raised e st2 \<Rightarrow>
                     if e = SocketTimeout
                     then Done (st2\<lparr>error := Some (JStr (lit ''Receive timed out''))\<rparr>)
                     else Raised e st2))))"

definition receive_responses :: "pylib \<Rightarrow> network \<Rightarrow> client \<Rightarrow> flow" where
  "receive_responses lib net st =
     (case socket st of
        None \<Rightarrow> Done st
      | Some s \<Rightarrow> receive_loop lib net (recv_chunks net) (recv_end net) st)"

text \<open>
  \<open>run\<close>: connect, send, receive inside \<open>try\<close> (\<open>run_body\<close>); the three \<open>except\<close> clauses
  turn an exception into the error string (\<open>run_except\<close>); \<open>finally\<close> disconnects.
\<close>

definition run_body :: "pylib \<Rightarrow> network \<Rightarrow> client \<Rightarrow> flow" where
  "run_body lib net st =
     and_then (and_then (connect net st) (send_request lib net)) (receive_responses lib net)"

definition run_except :: "pylib \<Rightarrow> flow \<Rightarrow> flow" where
  "run_except lib r =
     (case r of
        Done st \<Rightarrow> Done st
      | Raised e st \<Rightarrow>
          if e = SocketTimeout then Done (st\<lparr>error := Some (JStr (lit ''Connection timed out''))\<rparr>)
          else if e = ConnectionRefusedError
          then Done (st\<lparr>error := Some (JStr (lit ''Connection refused''))\<rparr>)
          else Done (st\<lparr>error := Some (JStr (lit ''Unexpected error: '' @ exn_text lib e))\<rparr>))"

definition run :: "pylib \<Rightarrow> network \<Rightarrow> client \<Rightarrow> flow" where
  "run lib net st =
     (case run_except lib (run_body lib net st) of
        Done st1 \<Rightarrow> disconnect net st1
      | Raised e st1 \<Rightarrow> and_then (disconnect net st1) (Raised e))"

subsection \<open>\<open>TermuxLocationCommand.__init__\<close>\<close>

definition ALLOWED_PROVIDERS :: "str set" where
  "ALLOWED_PROVIDERS = {lit ''gps'', lit ''network'', lit ''passive''}"

definition ALLOWED_REQUESTS :: "str set" where
  "ALLOWED_REQUESTS = {lit ''once'', lit ''last'', lit ''updates''}"

definition validate_parameters :: "str \<Rightarrow> str \<Rightarrow> exn option" where
  "validate_parameters provider request =
     (if provider \<notin> ALLOWED_PROVIDERS then Some (InvalidProvider provider)
      else if request \<notin> ALLOWED_REQUESTS then Some (InvalidRequest request)
      else None)"

text \<open>
  The constructor: the base constructor, the two attributes in lower case, the check.
  When the check raises, no object is returned.
\<close>

definition TermuxLocationCommand_init ::
  "pylib \<Rightarrow> str \<Rightarrow> str \<Rightarrow> str \<Rightarrow> int \<Rightarrow> int \<Rightarrow> exn + client" where
  "TermuxLocationCommand_init lib provider request h p t =
     (let pr = lower lib provider; rq = lower lib request in
      case validate_parameters pr rq of
        Some e \<Rightarrow> Inl e
      | None \<Rightarrow> Inr (TermuxRpcClient_init (LocationCommand pr rq) h p t))"

section \<open>Observations\<close>

text \<open>\<open>sent\<close> reads off a trace the byte strings given to \<open>sendall\<close>, in order.\<close>

fun sent :: "event list \<Rightarrow> byte list list" where
  "sent [] = []"
| "sent (EvSend bs # es) = bs # sent es"
| "sent (e # es) = sent es"

text \<open>
  \<open>closes\<close> counts the calls of \<open>close\<close> in a trace. \<open>accounted\<close> adds the socket that is
  stored, if any: it only changes when a socket is created.
\<close>

fun closes :: "event list \<Rightarrow> nat" where
  "closes [] = 0"
| "closes (EvClose b # es) = Suc (closes es)"
| "closes (e # es) = closes es"

definition accounted :: "client \<Rightarrow> nat" where
  "accounted st = closes (trace st) + (case socket st of None \<Rightarrow> 0 | Some s \<Rightarrow> 1)"


text \<open>
  Whether \<open>_connect\<close> gets through: the socket is created, the timeout and the port are in
  range, the host is found and the connection is made.
\<close>

definition connects :: "network \<Rightarrow> client \<Rightarrow> bool" where
  "connects net st =
     (socket_raises net = None \<and> 0 \<le> timeout st \<and> timeout st \<le> 9223372036
      \<and> resolve_raises net = None \<and> 0 \<le> port st \<and> port st \<le> 65535
      \<and> connect_raises net = None)"


section \<open>Sample conversations\<close>

text \<open>
  Concrete inputs on which the model is run. \<open>ascii_bytes\<close> is a bytes literal of ASCII
  characters. The lines are those of the protocol description, with the values
  \<open>json.loads\<close> gives them; \<open>garbled_line\<close> is no JSON text. \<open>sample_lib\<close> has \<open>json.loads\<close>
  on these lines and \<open>str.lower\<close> on ASCII text; its three text functions are never called
  in the sample conversations. \<open>request_text\<close> is what \<open>json.dumps\<close> prints for the request
  of \<open>location0\<close>.
  \<open>sample_net\<close> is a network on which nothing fails: \<open>recv\<close> returns the given byte
  strings in turn, then the peer closes. \<open>location0\<close> is \<open>TermuxLocationCommand()\<close> with
  its default arguments.
\<close>

definition ascii_bytes :: "string \<Rightarrow> byte list" where
  "ascii_bytes s = map of_char s"

definition ascii_lower :: "str \<Rightarrow> str" where
  "ascii_lower s = map (\<lambda>c. if 65 \<le> c \<and> c \<le> 90 then c + 32 else c) s"

definition request_text :: string where
  \<open>request_text =
     ''{"extras": {"api_method": "Location", "provider": "network", "request": "once"}}''\<close>

definition searching_line :: string where
  \<open>searching_line = ''{"status":"searching"}''\<close>

definition fix_line :: string where
  \<open>fix_line = ''{"latitude":1.0,"longitude":2.0}''\<close>

definition second_fix_line :: string where
  \<open>second_fix_line = ''{"latitude":3.0,"longitude":4.0}''\<close>

definition error_line :: string where
  \<open>error_line = ''{"error":"denied"}''\<close>

definition denied_line :: string where
  \<open>denied_line =
     ''{"permissions":[{"permission":"ACCESS_FINE_LOCATION","granted":false}]}''\<close>

definition garbled_line :: string where
  "garbled_line = ''not json''"

definition searching_value :: json where
  "searching_value = JObj [(lit ''status'', JStr (lit ''searching''))]"

definition fix_value :: json where
  "fix_value = JObj [(lit ''latitude'', JFloat 1), (lit ''longitude'', JFloat 2)]"

definition second_fix_value :: json where
  "second_fix_value = JObj [(lit ''latitude'', JFloat 3), (lit ''longitude'', JFloat 4)]"

definition error_value :: json where
  "error_value = JObj [(lit ''error'', JStr (lit ''denied''))]"

definition denied_value :: json where
  "denied_value =
     JObj [(lit ''permissions'',
            JArr [JObj [(lit ''permission'', JStr (lit ''ACCESS_FINE_LOCATION'')),
                        (lit ''granted'', JBool False)]])]"

definition sample_lines :: "(str \<times> json) list" where
  "sample_lines =
     [(lit searching_line, searching_value), (lit fix_line, fix_value),
      (lit second_fix_line, second_fix_value), (lit error_line, error_value),
      (lit denied_line, denied_value)]"

definition sample_lib :: pylib where
  "sample_lib =
     \<lparr>loads = map_of sample_lines, lower = ascii_lower, str_of = (\<lambda>v. []),
      exn_text = (\<lambda>e. []), float_repr = (\<lambda>x. [])\<rparr>"

definition sample_net :: "byte list list \<Rightarrow> network" where
  "sample_net chunks =
     \<lparr>socket_raises = None, resolve_raises = None, connect_raises = None,
      sendall_raises = None,
      recv_chunks = chunks, recv_end = Eof, close_raises = None\<rparr>"

definition location0 :: client where
  "location0 = TermuxRpcClient_init (LocationCommand (lit ''network'') (lit ''once'')) (lit ''localhost'') 80 10"

section \<open>Control flow and framing\<close>

text \<open>
  \<open>disconnect\<close> never raises, whatever \<open>close\<close> does: it sets the stop flag, calls \<open>close\<close>
  only when a socket is stored, and leaves no socket stored.
\<close>

lemma disconnect_eq:
  "disconnect net st =
     Done (st\<lparr>socket := None, event_stop := True,
              trace := trace st @ (case socket st of None \<Rightarrow> [] | Some s \<Rightarrow> [EvClose True])\<rparr>)"
  by (cases "close_raises net"; cases "socket st"; simp add: disconnect_def socket_close_def)

lemma and_then_Done [simp]: "and_then (Done st) f = f st"
  by (simp add: and_then_def)

lemma and_then_Raised [simp]: "and_then (Raised e st) f = Raised e st"
  by (simp add: and_then_def)

lemma and_then_assoc: "and_then (and_then r f) g = and_then r (\<lambda>st. and_then (f st) g)"
  by (cases r) simp_all

lemma feed_append: "feed lib net (xs @ ys) st = and_then (feed lib net xs st) (feed lib net ys)"
proof (induction xs arbitrary: st)
  case Nil
  show ?case by simp
next
  case (Cons b xs)
  have ext_IH: "feed lib net (xs @ ys) = (\<lambda>st. and_then (feed lib net xs st) (feed lib net ys))"
    by (rule ext) (rule Cons.IH)
  show ?case
    by (simp add: ext_IH Let_def and_then_assoc split: option.split)
qed

lemma feed_no_newline:
  "10 \<notin> set l \<Longrightarrow> feed lib net l st = Done (st\<lparr>data := data st @ l\<rparr>)"
  by (induction l arbitrary: st) (auto simp: Let_def)

lemma feed_line:
  assumes "10 \<notin> set l"
  shows "feed lib net (l @ 10 # rest) st =
           (case utf8_decode (data st @ l @ [10]) of
              None \<Rightarrow> Raised UnicodeDecodeError (st\<lparr>data := data st @ l @ [10]\<rparr>)
            | Some text \<Rightarrow>
                and_then (process_line lib net (strip text) (st\<lparr>data := []\<rparr>)) (feed lib net rest))"
  by (simp add: feed_append feed_no_newline [OF assms] Let_def split: option.split)

lemma receive_loop_stopped:
  "event_stop st \<Longrightarrow> receive_loop lib net chunks fin st = Done st"
  by (cases chunks) simp_all

section \<open>What a conversation sends\<close>

text \<open>
  No handler, no line and no read adds to the bytes sent: they are the same after
  \<open>disconnect\<close>, after the dispatch of a value, after a line, after the bytes of a read and
  after the receive loop, whether the method returns or raises.
\<close>

lemma sent_append [simp]: "sent (xs @ ys) = sent xs @ sent ys"
  by (induction xs rule: sent.induct) simp_all

lemma state_of_simps [simp]: "state_of (Done st) = st" "state_of (Raised e st) = st"
  by (simp_all add: state_of_def)

lemma sent_disconnect [simp]: "sent (trace (state_of (disconnect net st))) = sent (trace st)"
  by (simp add: disconnect_eq split: option.split)

lemma sent_and_then:
  assumes "sent (trace (state_of r)) = sent (trace st)"
    and "\<And>s. sent (trace s) = sent (trace st) \<Longrightarrow> sent (trace (state_of (f s))) = sent (trace st)"
  shows "sent (trace (state_of (and_then r f))) = sent (trace st)"
  using assms by (cases r) simp_all

lemma sent_permissions_loop [simp]:
  "sent (trace (state_of (permissions_loop lib net perms st))) = sent (trace st)"
proof (induction perms arbitrary: st)
  case Nil
  show ?case by simp
next
  case (Cons p ps)
  show ?case
    by (auto simp: Cons.IH disconnect_eq split: sum.split option.split)
qed

lemma sent_handle_response [simp]:
  "sent (trace (state_of (handle_response lib net d st))) = sent (trace st)"
  by (auto simp: handle_response_def handle_error_def handle_permissions_def handle_data_def
      split: sum.split command.split)

lemma sent_process_line [simp]:
  "sent (trace (state_of (process_line lib net line st))) = sent (trace st)"
proof (cases "loads lib line")
  case None
  then show ?thesis by (simp add: process_line_def)
next
  case (Some d)
  have "sent (trace (state_of (handle_response lib net d st))) = sent (trace st)"
    by simp
  with Some show ?thesis
    by (cases "handle_response lib net d st") (simp_all add: process_line_def)
qed

lemma sent_feed [simp]: "sent (trace (state_of (feed lib net bs st))) = sent (trace st)"
proof (induction bs arbitrary: st)
  case Nil
  show ?case by simp
next
  case (Cons b bs)
  have step: "sent (trace (state_of (and_then (process_line lib net line s) (feed lib net bs))))
                = sent (trace s)" for line s
    by (rule sent_and_then) (simp_all add: Cons.IH)
  show ?case
    by (simp add: Let_def Cons.IH step split: option.split)
qed

lemma sent_receive_loop [simp]:
  "sent (trace (state_of (receive_loop lib net chunks fin st))) = sent (trace st)"
proof (induction chunks arbitrary: st)
  case Nil
  show ?case by (simp add: Let_def split: option.split recv_end.split)
next
  case (Cons c cs)
  have f: "sent (trace (state_of (feed lib net c (st\<lparr>trace := trace st @ [EvRecv]\<rparr>)))) = sent (trace st)"
    by simp
  show ?case
    using f
    by (cases "feed lib net c (st\<lparr>trace := trace st @ [EvRecv]\<rparr>)")
       (simp_all add: Let_def Cons.IH split: option.split)
qed

lemma sent_receive_responses [simp]:
  "sent (trace (state_of (receive_responses lib net st))) = sent (trace st)"
  by (simp add: receive_responses_def split: option.split)

lemma run_except_Done:
  "\<exists>s. run_except lib r = Done s \<and> trace s = trace (state_of r)"
  by (cases r) (auto simp: run_except_def)

lemma run_returns:
  "\<exists>st'. run lib net st = Done st' \<and> event_stop st' \<and> socket st' = None"
proof -
  obtain s where "run_except lib (run_body lib net st) = Done s"
    using run_except_Done by blast
  then show ?thesis by (simp add: run_def disconnect_eq)
qed











lemma to_dict_eq:
  "to_dict st =
     (case kind st of
        RpcClient \<Rightarrow> Inl (NotImplementedError (lit ''API_METHOD must be defined in subclass''))
      | LocationCommand p r \<Rightarrow>
          Inr (JObj [(lit ''extras'',
                 JObj [(lit ''api_method'', JStr (lit ''Location'')),
                       (lit ''provider'', JStr p), (lit ''request'', JStr r)])])
      | NotificationListCommand ks \<Rightarrow>
          Inr (JObj [(lit ''extras'',
                 JObj [(lit ''api_method'', JStr (lit ''NotificationList'')),
                       (lit ''keys'', ks)])])
      | NotificationRemoveCommand i \<Rightarrow>
          Inr (JObj [(lit ''extras'',
                 JObj [(lit ''api_method'', JStr (lit ''NotificationRemove'')),
                       (lit ''id'', JStr i)])]))"
  by (simp add: to_dict_def TermuxRpcClient_to_dict_def API_METHOD_def update_extras_def
      py_getitem_def lit_def split: command.split)





lemma to_json_kind: "kind s = kind st \<Longrightarrow> to_json lib s = to_json lib st"
  by (simp add: to_json_def to_dict_eq)

text \<open>\<open>_connect\<close> returns exactly when \<open>connects\<close> holds; otherwise it raises and nothing is sent.\<close>

lemma connect_connects:
  "connects net st \<Longrightarrow>
     connect net st = Done (st\<lparr>socket := Some Socket, trace := trace st @ [EvSocket, EvConnect]\<rparr>)"
  by (auto simp: connects_def connect_def settimeout_def Let_def)



text \<open>
  The escapes on a sample: the string of the characters \<open>x\<close>, newline, \<open>0x7F\<close>, \<open>0xE9\<close>,
  \<open>0x1F600\<close>, quote and backslash is written \<open>"x\n\u007f\u00e9\ud83d\ude00\"\\"\<close>.
\<close>

lemma encode_basestring_sample:
  "encode_basestring [120, 10, 127, 233, 128512, 34, 92]
     = [34, 120, 92, 110, 92, 117, 48, 48, 55, 102, 92, 117,
        48, 48, 101, 57, 92, 117, 100, 56, 51, 100, 92, 117,
        100, 101, 48, 48, 92, 34, 92, 92, 34]"
  by (simp add: encode_basestring_def escape_char_def u_escape_def hex_digit_def)



text \<open>
  The request of \<open>location0\<close>, as text and as bytes, and the claim at \<open>location0\<close>: on a
  network on which nothing fails and one location line is received, the bytes sent are
  this request and a newline byte.
\<close>

lemma location0_request:
  \<open>to_json sample_lib location0
     = Inr (lit request_text)\<close>
  by (simp add: to_json_def to_dict_eq location0_def TermuxRpcClient_init_def
      encode_basestring_def escape_char_def lit_def request_text_def)

lemma location0_request_bytes:
  \<open>utf8_encode (lit request_text)
     = Some (ascii_bytes request_text)\<close>
  by (simp add: lit_def ascii_bytes_def encode_char_def request_text_def)


section \<open>Construction of a location command\<close>

text \<open>
  Claim C4. For every provider and request string, the constructor of the location
  command returns an object exactly when the lower-cased provider is one of gps, network,
  passive and the lower-cased request is one of once, last, updates. The object it returns
  holds the lower-cased values, has no socket and an empty trace of socket calls; for
  every other pair it raises the \<open>ValueError\<close> of the first failing check and returns no
  object. The constructor takes no network: it cannot open a socket.
\<close>

theorem location_constructor_validates:
  "TermuxLocationCommand_init lib provider request h p t =
     (if lower lib provider \<in> {lit ''gps'', lit ''network'', lit ''passive''}
         \<and> lower lib request \<in> {lit ''once'', lit ''last'', lit ''updates''}
      then Inr \<lparr>kind = LocationCommand (lower lib provider) (lower lib request),
                host = h, port = p, timeout = t, socket = None, data = [], result = None,
                error = None, event_stop = False, trace = []\<rparr>
      else Inl (if lower lib provider \<in> {lit ''gps'', lit ''network'', lit ''passive''}
                then InvalidRequest (lower lib request)
                else InvalidProvider (lower lib provider)))"
  by (simp add: TermuxLocationCommand_init_def validate_parameters_def ALLOWED_PROVIDERS_def
      ALLOWED_REQUESTS_def TermuxRpcClient_init_def Let_def)

section \<open>A line that is not JSON\<close>

text \<open>
  Claim C3. When the bytes up to a newline decode to a line that \<open>json.loads\<close> rejects,
  \<open>_process_line\<close> sets the error to \<open>Invalid JSON: \<close> followed by the line and changes
  nothing else: the stop flag and the socket stay as they are. The loop over the bytes
  of the read goes on with the bytes after the newline, and the receive loop goes on with
  the next read.
\<close>

theorem invalid_json_line_is_recoverable:
  assumes "10 \<notin> set l"
    and "utf8_decode (data st @ l @ [10]) = Some text"
    and "loads lib (strip text) = None"
    and "\<not> event_stop st" and "socket st = Some Socket"
  shows "process_line lib net (strip text) (st\<lparr>data := []\<rparr>)
           = Done (st\<lparr>data := [], error := Some (JStr (lit ''Invalid JSON: '' @ strip text))\<rparr>)
         \<and> feed lib net (l @ 10 # rest) st
           = feed lib net rest
               (st\<lparr>data := [], error := Some (JStr (lit ''Invalid JSON: '' @ strip text))\<rparr>)
         \<and> receive_loop lib net ((l @ [10]) # later) fin st
           = receive_loop lib net later fin
               (st\<lparr>trace := trace st @ [EvRecv], data := [],
                   error := Some (JStr (lit ''Invalid JSON: '' @ strip text))\<rparr>)"
proof -
  let ?err = "Some (JStr (lit ''Invalid JSON: '' @ strip text))"
  have line: "\<And>s. process_line lib net (strip text) s = Done (s\<lparr>error := ?err\<rparr>)"
    using assms(3) by (simp add: process_line_def)
  have one: "\<And>s r. data s = data st \<Longrightarrow>
      feed lib net (l @ 10 # r) s = feed lib net r (s\<lparr>data := [], error := ?err\<rparr>)"
    using assms(1,2) by (simp add: feed_line line)
  have "feed lib net (l @ [10]) (st\<lparr>trace := trace st @ [EvRecv]\<rparr>)
          = Done (st\<lparr>trace := trace st @ [EvRecv], data := [], error := ?err\<rparr>)"
    using one [of "st\<lparr>trace := trace st @ [EvRecv]\<rparr>" "[]"] by simp
  then show ?thesis
    using assms(4,5) one [of st rest] line [of "st\<lparr>data := []\<rparr>"] by (simp add: Let_def)
qed


section \<open>Permission records\<close>

text \<open>
  The loop over a list of records that all have the keys \<open>permission\<close> and \<open>granted\<close>
  (\<open>recs\<close> lists the two values of every record): without a record that is not granted the
  object is unchanged; otherwise the error names the last such record, and the
  connection is closed.
\<close>

lemma permissions_loop_records:
  assumes "map (\<lambda>p. py_getitem p (lit ''permission'')) perms = map (\<lambda>r. Inr (fst r)) recs"
    and "map (\<lambda>p. py_getitem p (lit ''granted'')) perms = map (\<lambda>r. Inr (snd r)) recs"
  shows "permissions_loop lib net perms st =
           Done (case filter (\<lambda>r. \<not> py_truthy (snd r)) recs of
                   [] \<Rightarrow> st
                 | d # ds \<Rightarrow>
                     st\<lparr>error := Some (JStr (lit ''Permission denied: ''
                                              @ py_format lib (fst (last (d # ds))))),
                        socket := None, event_stop := True,
                        trace := trace st
                          @ (case socket st of None \<Rightarrow> [] | Some s \<Rightarrow> [EvClose True])\<rparr>)"
  using assms
proof (induction perms arbitrary: recs st)
  case Nil
  then show ?case by simp
next
  case (Cons p ps)
  from Cons.prems(1) obtain r rs where recs: "recs = r # rs"
    by (cases recs) auto
  from Cons.prems recs have p: "py_getitem p (lit ''permission'') = Inr (fst r)"
    "py_getitem p (lit ''granted'') = Inr (snd r)"
    and rest: "map (\<lambda>p. py_getitem p (lit ''permission'')) ps = map (\<lambda>r. Inr (fst r)) rs"
    "map (\<lambda>p. py_getitem p (lit ''granted'')) ps = map (\<lambda>r. Inr (snd r)) rs"
    by simp_all
  note IH = Cons.IH [OF rest]
  show ?case
  proof (cases "py_truthy (snd r)")
    case True
    then show ?thesis by (simp add: recs p IH)
  next
    case False
    then show ?thesis
      by (simp add: recs p IH disconnect_eq split: list.split)
  qed
qed

text \<open>
  Claim C10. When a permissions line holds more than one record that is not granted, the
  handler visits every record: the error is \<open>Permission denied: \<close> followed by the name of
  the last record in list order that is not granted.
\<close>

theorem last_denied_permission_wins:
  assumes "map (\<lambda>p. py_getitem p (lit ''permission'')) perms = map (\<lambda>r. Inr (fst r)) recs"
    and "map (\<lambda>p. py_getitem p (lit ''granted'')) perms = map (\<lambda>r. Inr (snd r)) recs"
    and "filter (\<lambda>r. \<not> py_truthy (snd r)) recs = denied"
    and "1 < length denied"
  shows "handle_permissions lib net (JArr perms) st =
           Done (st\<lparr>error := Some (JStr (lit ''Permission denied: ''
                                            @ py_format lib (fst (last denied)))),
                    socket := None, event_stop := True,
                    trace := trace st
                      @ (case socket st of None \<Rightarrow> [] | Some s \<Rightarrow> [EvClose True])\<rparr>)"
proof -
  from assms(4) obtain d ds where "denied = d # ds"
    by (cases denied) auto
  with assms(3) show ?thesis
    by (simp add: handle_permissions_def py_iter_def permissions_loop_records [OF assms(1,2)])
qed


section \<open>The dispatch of a line\<close>

text \<open>
  A line that arrives on an empty buffer; the data handler of the location command, which
  keeps a value with \<open>latitude\<close> and closes the connection, and ignores every other value;
  and what \<open>_process_line\<close> does with a decoded dict: one with the key \<open>error\<close>; one with
  the key \<open>permissions\<close> and a list of records; one with neither, given to the data handler
  of the location command.
\<close>

lemma feed_whole_line:
  assumes "10 \<notin> set l" and "data st = []" and "utf8_decode (l @ [10]) = Some t"
  shows "feed lib net (l @ 10 # rest) st
           = and_then (process_line lib net (strip t) st) (feed lib net rest)"
proof -
  have same: "st\<lparr>data := []\<rparr> = st"
    using assms(2) by (cases st) simp
  show ?thesis
    by (simp add: feed_line [OF assms(1)] assms(2,3) same)
qed

lemma handle_data_location:
  assumes "kind st = LocationCommand p r" and "py_contains (lit ''latitude'') d = Inr b"
  shows "handle_data net d st =
           (if b
            then Done (st\<lparr>result := Some d, socket := None, event_stop := True,
                          trace := trace st
                            @ (case socket st of None \<Rightarrow> [] | Some s \<Rightarrow> [EvClose True])\<rparr>)
            else Done st)"
  using assms by (simp add: handle_data_def disconnect_eq)

lemma process_line_error:
  assumes "loads lib line = Some (JObj kvs)" and "map_of kvs (lit ''error'') = Some msg"
  shows "process_line lib net line st =
           Done (st\<lparr>error := Some msg, socket := None, event_stop := True,
                    trace := trace st
                      @ (case socket st of None \<Rightarrow> [] | Some s \<Rightarrow> [EvClose True])\<rparr>)"
  using assms
  by (simp add: process_line_def handle_response_def py_contains_def py_getitem_def
      handle_error_def disconnect_eq)

lemma process_line_permissions:
  assumes "loads lib line = Some (JObj kvs)" and "map_of kvs (lit ''error'') = None"
    and "map_of kvs (lit ''permissions'') = Some (JArr perms)"
    and "map (\<lambda>p. py_getitem p (lit ''permission'')) perms = map (\<lambda>r. Inr (fst r)) recs"
    and "map (\<lambda>p. py_getitem p (lit ''granted'')) perms = map (\<lambda>r. Inr (snd r)) recs"
  shows "process_line lib net line st =
           Done (case filter (\<lambda>r. \<not> py_truthy (snd r)) recs of
                   [] \<Rightarrow> st
                 | d # ds \<Rightarrow>
                     st\<lparr>error := Some (JStr (lit ''Permission denied: ''
                                              @ py_format lib (fst (last (d # ds))))),
                        socket := None, event_stop := True,
                        trace := trace st
                          @ (case socket st of None \<Rightarrow> [] | Some s \<Rightarrow> [EvClose True])\<rparr>)"
  using assms(1-3)
  by (simp add: process_line_def handle_response_def py_contains_def py_getitem_def
      handle_permissions_def py_iter_def permissions_loop_records [OF assms(4,5)])

lemma process_line_location_data:
  assumes "loads lib line = Some (JObj kvs)" and "map_of kvs (lit ''error'') = None"
    and "map_of kvs (lit ''permissions'') = None" and "kind st = LocationCommand p r"
  shows "process_line lib net line st =
           (if map_of kvs (lit ''latitude'') = None then Done st
            else Done (st\<lparr>result := Some (JObj kvs), socket := None, event_stop := True,
                          trace := trace st
                            @ (case socket st of None \<Rightarrow> [] | Some s \<Rightarrow> [EvClose True])\<rparr>))"
  using assms
  by (simp add: process_line_def handle_response_def py_contains_def handle_data_def
      disconnect_eq)

section \<open>The sample conversations, step by step\<close>

text \<open>
  Every sample line has no newline byte, decodes to its text, strips to itself and loads
  to its value. The lemmas after that give the effect of each sample line, followed by a
  newline byte, on an object with an empty buffer, and \<open>run\<close> on \<open>location0\<close> up to the
  receive loop.
\<close>

lemma sample_framing:
  "10 \<notin> set (ascii_bytes searching_line)"
  "10 \<notin> set (ascii_bytes fix_line)"
  "10 \<notin> set (ascii_bytes second_fix_line)"
  "10 \<notin> set (ascii_bytes error_line)"
  "10 \<notin> set (ascii_bytes denied_line)"
  "10 \<notin> set (ascii_bytes garbled_line)"
  by (simp_all add: ascii_bytes_def searching_line_def fix_line_def second_fix_line_def
      error_line_def denied_line_def garbled_line_def)

lemma sample_decode:
  "utf8_decode (ascii_bytes searching_line @ [10]) = Some (lit searching_line @ [10])"
  "utf8_decode (ascii_bytes fix_line @ [10]) = Some (lit fix_line @ [10])"
  "utf8_decode (ascii_bytes second_fix_line @ [10]) = Some (lit second_fix_line @ [10])"
  "utf8_decode (ascii_bytes error_line @ [10]) = Some (lit error_line @ [10])"
  "utf8_decode (ascii_bytes denied_line @ [10]) = Some (lit denied_line @ [10])"
  "utf8_decode (ascii_bytes garbled_line @ [10]) = Some (lit garbled_line @ [10])"
  by (simp_all add: ascii_bytes_def lit_def searching_line_def fix_line_def second_fix_line_def
      error_line_def denied_line_def garbled_line_def)

lemma sample_strip:
  "strip (lit searching_line @ [10]) = lit searching_line"
  "strip (lit fix_line @ [10]) = lit fix_line"
  "strip (lit second_fix_line @ [10]) = lit second_fix_line"
  "strip (lit error_line @ [10]) = lit error_line"
  "strip (lit denied_line @ [10]) = lit denied_line"
  "strip (lit garbled_line @ [10]) = lit garbled_line"
  by (simp_all add: strip_def py_isspace_def lit_def searching_line_def fix_line_def
      second_fix_line_def error_line_def denied_line_def garbled_line_def)

lemma sample_loads:
  "loads sample_lib (lit searching_line) = Some searching_value"
  "loads sample_lib (lit fix_line) = Some fix_value"
  "loads sample_lib (lit second_fix_line) = Some second_fix_value"
  "loads sample_lib (lit error_line) = Some error_value"
  "loads sample_lib (lit denied_line) = Some denied_value"
  "loads sample_lib (lit garbled_line) = None"
  by (simp_all add: sample_lib_def sample_lines_def lit_def searching_line_def fix_line_def
      second_fix_line_def error_line_def denied_line_def garbled_line_def)


lemma sample_errors:
  "lit ''Invalid JSON: '' @ lit garbled_line = lit ''Invalid JSON: not json''"
  by (simp add: lit_def garbled_line_def)

lemma feed_searching_line:
  assumes "kind st = LocationCommand p r" and "data st = []"
  shows "feed sample_lib net (ascii_bytes searching_line @ 10 # rest) st
           = feed sample_lib net rest st"
proof -
  have "process_line sample_lib net (lit searching_line) st = Done st"
    using process_line_location_data [OF sample_loads(1) [unfolded searching_value_def] _ _ assms(1)]
    by (simp add: lit_def)
  then show ?thesis
    by (simp add: feed_whole_line [OF sample_framing(1) assms(2) sample_decode(1)] sample_strip)
qed

lemma feed_fix_line:
  assumes "kind st = LocationCommand p r" and "data st = []"
  shows "feed sample_lib net (ascii_bytes fix_line @ 10 # rest) st
           = feed sample_lib net rest
               (st\<lparr>result := Some fix_value, socket := None, event_stop := True,
                   trace := trace st
                     @ (case socket st of None \<Rightarrow> [] | Some s \<Rightarrow> [EvClose True])\<rparr>)"
proof -
  have "process_line sample_lib net (lit fix_line) st =
          Done (st\<lparr>result := Some fix_value, socket := None, event_stop := True,
                   trace := trace st
                     @ (case socket st of None \<Rightarrow> [] | Some s \<Rightarrow> [EvClose True])\<rparr>)"
    using process_line_location_data [OF sample_loads(2) [unfolded fix_value_def] _ _ assms(1)]
    by (simp add: lit_def fix_value_def)
  then show ?thesis
    by (simp add: feed_whole_line [OF sample_framing(2) assms(2) sample_decode(2)] sample_strip)
qed

lemma feed_second_fix_line:
  assumes "kind st = LocationCommand p r" and "data st = []"
  shows "feed sample_lib net (ascii_bytes second_fix_line @ 10 # rest) st
           = feed sample_lib net rest
               (st\<lparr>result := Some second_fix_value, socket := None, event_stop := True,
                   trace := trace st
                     @ (case socket st of None \<Rightarrow> [] | Some s \<Rightarrow> [EvClose True])\<rparr>)"
proof -
  have "process_line sample_lib net (lit second_fix_line) st =
          Done (st\<lparr>result := Some second_fix_value, socket := None, event_stop := True,
                   trace := trace st
                     @ (case socket st of None \<Rightarrow> [] | Some s \<Rightarrow> [EvClose True])\<rparr>)"
    using process_line_location_data
      [OF sample_loads(3) [unfolded second_fix_value_def] _ _ assms(1)]
    by (simp add: lit_def second_fix_value_def)
  then show ?thesis
    by (simp add: feed_whole_line [OF sample_framing(3) assms(2) sample_decode(3)] sample_strip)
qed

lemma feed_error_line:
  assumes "data st = []"
  shows "feed sample_lib net (ascii_bytes error_line @ 10 # rest) st
           = feed sample_lib net rest
               (st\<lparr>error := Some (JStr (lit ''denied'')), socket := None, event_stop := True,
                   trace := trace st
                     @ (case socket st of None \<Rightarrow> [] | Some s \<Rightarrow> [EvClose True])\<rparr>)"
proof -
  have "process_line sample_lib net (lit error_line) st =
          Done (st\<lparr>error := Some (JStr (lit ''denied'')), socket := None, event_stop := True,
                   trace := trace st
                     @ (case socket st of None \<Rightarrow> [] | Some s \<Rightarrow> [EvClose True])\<rparr>)"
    by (rule process_line_error [OF sample_loads(4) [unfolded error_value_def]]) simp
  then show ?thesis
    by (simp add: feed_whole_line [OF sample_framing(4) assms sample_decode(4)] sample_strip)
qed

lemma feed_denied_line:
  assumes "data st = []"
  shows "feed sample_lib net (ascii_bytes denied_line @ 10 # rest) st
           = feed sample_lib net rest
               (st\<lparr>error := Some (JStr (lit ''Permission denied: ACCESS_FINE_LOCATION'')),
                   socket := None, event_stop := True,
                   trace := trace st
                     @ (case socket st of None \<Rightarrow> [] | Some s \<Rightarrow> [EvClose True])\<rparr>)"
proof -
  have "process_line sample_lib net (lit denied_line) st =
          Done (case filter (\<lambda>r. \<not> py_truthy (snd r))
                       [(JStr (lit ''ACCESS_FINE_LOCATION''), JBool False)] of
                  [] \<Rightarrow> st
                | d # ds \<Rightarrow>
                    st\<lparr>error := Some (JStr (lit ''Permission denied: ''
                                             @ py_format sample_lib (fst (last (d # ds))))),
                       socket := None, event_stop := True,
                       trace := trace st
                         @ (case socket st of None \<Rightarrow> [] | Some s \<Rightarrow> [EvClose True])\<rparr>)"
    using process_line_permissions
      [OF sample_loads(5) [unfolded denied_value_def], of
        "[JObj [(lit ''permission'', JStr (lit ''ACCESS_FINE_LOCATION'')),
                (lit ''granted'', JBool False)]]"
        "[(JStr (lit ''ACCESS_FINE_LOCATION''), JBool False)]" net st]
    by (simp add: lit_def py_getitem_def)
  then have "process_line sample_lib net (lit denied_line) st =
          Done (st\<lparr>error := Some (JStr (lit ''Permission denied: ACCESS_FINE_LOCATION'')),
                   socket := None, event_stop := True,
                   trace := trace st
                     @ (case socket st of None \<Rightarrow> [] | Some s \<Rightarrow> [EvClose True])\<rparr>)"
    by (simp add: py_truthy_def py_format_def lit_def)
  then show ?thesis
    by (simp add: feed_whole_line [OF sample_framing(5) assms sample_decode(5)] sample_strip)
qed

lemma feed_garbled_line:
  assumes "data st = []"
  shows "feed sample_lib net (ascii_bytes garbled_line @ 10 # rest) st
           = feed sample_lib net rest (st\<lparr>error := Some (JStr (lit ''Invalid JSON: not json''))\<rparr>)"
proof -
  have "process_line sample_lib net (lit garbled_line) st
          = Done (st\<lparr>error := Some (JStr (lit ''Invalid JSON: not json''))\<rparr>)"
    by (simp add: process_line_def sample_loads sample_errors)
  then show ?thesis
    by (simp add: feed_whole_line [OF sample_framing(6) assms sample_decode(6)] sample_strip)
qed

lemma sample_net_simps:
  "recv_chunks (sample_net chunks) = chunks" "recv_end (sample_net chunks) = Eof"
  "close_raises (sample_net chunks) = None"
  by (simp_all add: sample_net_def)

lemma run_location0:
  assumes "receive_loop sample_lib (sample_net chunks) chunks Eof
             (location0\<lparr>socket := Some Socket,
                        trace := [EvSocket, EvConnect, EvSend (ascii_bytes request_text @ [10])]\<rparr>)
           = Done s"
  shows "run sample_lib (sample_net chunks) location0 = disconnect (sample_net chunks) s"
proof -
  have c: "connect (sample_net chunks) location0
             = Done (location0\<lparr>socket := Some Socket, trace := [EvSocket, EvConnect]\<rparr>)"
    using connect_connects [of "sample_net chunks" location0]
    by (simp add: connects_def sample_net_def location0_def TermuxRpcClient_init_def)
  have j: "to_json sample_lib (location0\<lparr>socket := Some Socket, trace := [EvSocket, EvConnect]\<rparr>)
             = Inr (lit request_text)"
    using to_json_kind [of "location0\<lparr>socket := Some Socket, trace := [EvSocket, EvConnect]\<rparr>"
        location0 sample_lib]
    by (simp add: location0_request)
  have s: "send_request sample_lib (sample_net chunks)
             (location0\<lparr>socket := Some Socket, trace := [EvSocket, EvConnect]\<rparr>)
           = Done (location0\<lparr>socket := Some Socket,
                    trace := [EvSocket, EvConnect, EvSend (ascii_bytes request_text @ [10])]\<rparr>)"
    by (simp add: send_request_def j location0_request_bytes sample_net_def)
  have "run_body sample_lib (sample_net chunks) location0 = Done s"
    using assms by (simp add: run_body_def c s receive_responses_def sample_net_simps)
  then show ?thesis
    by (simp add: run_def run_except_def)
qed


lemma location0_fields:
  "kind location0 = LocationCommand (lit ''network'') (lit ''once'')"
  "data location0 = []" "event_stop location0 = False" "socket location0 = None"
  "result location0 = None" "error location0 = None" "trace location0 = []"
  by (simp_all add: location0_def TermuxRpcClient_init_def)

section \<open>Lines that follow a closing line in the same read\<close>

text \<open>
  \<open>disconnect\<close> sets the stop flag, but the flag is read only between two reads: the loop
  over the bytes of one read goes on to the end of the read. A line that follows a closing
  line in the same read is therefore still dispatched. The three theorems of this section
  run \<open>location0\<close> on such reads.
\<close>

text \<open>
  Claim C2. The claim: after a line with a permission that is not granted, the client
  records an error with the permission's name and disconnects, and the data handler never
  runs afterwards, even if more lines follow. On the code, when the line
  \<open>{"permissions":[{"permission":"ACCESS_FINE_LOCATION","granted":false}]}\<close> and the line
  \<open>{"latitude":1.0,"longitude":2.0}\<close> arrive in one read, the conversation ends with the
  error \<open>Permission denied: ACCESS_FINE_LOCATION\<close> and with the second line as its result:
  the data handler has run after the denial.
\<close>

theorem denied_permission_then_fix_in_one_read:
  "result (state_of (run sample_lib
      (sample_net [ascii_bytes denied_line @ 10 # ascii_bytes fix_line @ [10]]) location0))
     = Some fix_value
   \<and> error (state_of (run sample_lib
      (sample_net [ascii_bytes denied_line @ 10 # ascii_bytes fix_line @ [10]]) location0))
     = Some (JStr (lit ''Permission denied: ACCESS_FINE_LOCATION''))"
proof -
  let ?net = "sample_net [ascii_bytes denied_line @ 10 # ascii_bytes fix_line @ [10]]"
  let ?s = "location0\<lparr>socket := None,
               trace := [EvSocket, EvConnect, EvSend (ascii_bytes request_text @ [10]), EvRecv,
                         EvClose True],
               error := Some (JStr (lit ''Permission denied: ACCESS_FINE_LOCATION'')),
               event_stop := True, result := Some fix_value\<rparr>"
  have "receive_loop sample_lib ?net [ascii_bytes denied_line @ 10 # ascii_bytes fix_line @ [10]] Eof
          (location0\<lparr>socket := Some Socket,
             trace := [EvSocket, EvConnect, EvSend (ascii_bytes request_text @ [10])]\<rparr>)
        = Done ?s"
    by (simp add: location0_fields feed_denied_line
        feed_fix_line [where p = "lit ''network''" and r = "lit ''once''"])
  from run_location0 [OF this] show ?thesis
    by (simp add: disconnect_eq)
qed


text \<open>
  Claim C5. The claim: the first line with a \<open>latitude\<close> field given to the data handler
  of the location command is the final result. On the code, when two such lines arrive in
  one read, both are given to the handler and the result of the conversation is the second
  one.
\<close>

theorem second_fix_in_one_read_replaces_first:
  "result (state_of (run sample_lib
      (sample_net [ascii_bytes fix_line @ 10 # ascii_bytes second_fix_line @ [10]]) location0))
     = Some second_fix_value
   \<and> second_fix_value \<noteq> fix_value"
proof -
  let ?net = "sample_net [ascii_bytes fix_line @ 10 # ascii_bytes second_fix_line @ [10]]"
  let ?s = "location0\<lparr>socket := None,
               trace := [EvSocket, EvConnect, EvSend (ascii_bytes request_text @ [10]), EvRecv,
                         EvClose True],
               event_stop := True, result := Some second_fix_value\<rparr>"
  have "receive_loop sample_lib ?net
          [ascii_bytes fix_line @ 10 # ascii_bytes second_fix_line @ [10]] Eof
          (location0\<lparr>socket := Some Socket,
             trace := [EvSocket, EvConnect, EvSend (ascii_bytes request_text @ [10])]\<rparr>)
        = Done ?s"
    by (simp add: location0_fields
        feed_fix_line [where p = "lit ''network''" and r = "lit ''once''"]
        feed_second_fix_line [where p = "lit ''network''" and r = "lit ''once''"])
  from run_location0 [OF this] have "result (state_of (run sample_lib ?net location0))
      = Some second_fix_value"
    by (simp add: disconnect_eq)
  moreover have "second_fix_value \<noteq> fix_value"
    by (simp add: second_fix_value_def fix_value_def)
  ultimately show ?thesis by simp
qed

text \<open>
  Claim C6. The claim: however the inbound bytes are split into reads, the outcome is the
  one of a single read of all the bytes. On the code, the bytes of the line
  \<open>{"error":"denied"}\<close> followed by the line \<open>{"latitude":1.0,"longitude":2.0}\<close> give the
  second line as the result when they arrive in one read, and no result when each line
  arrives in a read of its own.
\<close>

theorem outcome_depends_on_read_boundaries:
  "concat [ascii_bytes error_line @ [10], ascii_bytes fix_line @ [10]]
     = concat [ascii_bytes error_line @ 10 # ascii_bytes fix_line @ [10]]
   \<and> result (state_of (run sample_lib
        (sample_net [ascii_bytes error_line @ 10 # ascii_bytes fix_line @ [10]]) location0))
     = Some fix_value
   \<and> result (state_of (run sample_lib
        (sample_net [ascii_bytes error_line @ [10], ascii_bytes fix_line @ [10]]) location0))
     = None"
proof -
  let ?one = "[ascii_bytes error_line @ 10 # ascii_bytes fix_line @ [10]]"
  let ?two = "[ascii_bytes error_line @ [10], ascii_bytes fix_line @ [10]]"
  let ?c = "location0\<lparr>socket := Some Socket,
             trace := [EvSocket, EvConnect, EvSend (ascii_bytes request_text @ [10])]\<rparr>"
  have "receive_loop sample_lib (sample_net ?one) ?one Eof ?c
        = Done (location0\<lparr>socket := None,
               trace := [EvSocket, EvConnect, EvSend (ascii_bytes request_text @ [10]), EvRecv,
                         EvClose True],
               error := Some (JStr (lit ''denied'')),
               event_stop := True, result := Some fix_value\<rparr>)"
    by (simp add: location0_fields feed_error_line
        feed_fix_line [where p = "lit ''network''" and r = "lit ''once''"])
  from run_location0 [OF this]
  have one: "result (state_of (run sample_lib (sample_net ?one) location0)) = Some fix_value"
    by (simp add: disconnect_eq)
  have "receive_loop sample_lib (sample_net ?two) ?two Eof ?c
        = Done (location0\<lparr>socket := None,
               trace := [EvSocket, EvConnect, EvSend (ascii_bytes request_text @ [10]), EvRecv,
                         EvClose True],
               error := Some (JStr (lit ''denied'')),
               event_stop := True\<rparr>)"
    by (simp add: location0_fields feed_error_line)
  from run_location0 [OF this]
  have two: "result (state_of (run sample_lib (sample_net ?two) location0)) = None"
    by (simp add: disconnect_eq location0_fields)
  from one two show ?thesis by simp
qed

section \<open>The error slot and the end of the conversation\<close>

text \<open>
  Claim C1, as stated, fails: once the error is set, the connection need not be torn
  down, and later lines are still dispatched. After the line \<open>not json\<close> the error is set,
  the stop flag is not, and the socket is still stored; the line
  \<open>{"latitude":1.0,"longitude":2.0}\<close> of the next read is given to the data handler and
  becomes the result.
\<close>

theorem invalid_json_sets_error_and_goes_on:
  "error (state_of (feed sample_lib (sample_net []) (ascii_bytes garbled_line @ [10])
       (location0\<lparr>socket := Some Socket\<rparr>)))
     = Some (JStr (lit ''Invalid JSON: not json''))
   \<and> \<not> event_stop (state_of (feed sample_lib (sample_net []) (ascii_bytes garbled_line @ [10])
       (location0\<lparr>socket := Some Socket\<rparr>)))
   \<and> socket (state_of (feed sample_lib (sample_net []) (ascii_bytes garbled_line @ [10])
       (location0\<lparr>socket := Some Socket\<rparr>)))
     = Some Socket
   \<and> result (state_of (run sample_lib
        (sample_net [ascii_bytes garbled_line @ [10], ascii_bytes fix_line @ [10]]) location0))
     = Some fix_value
   \<and> error (state_of (run sample_lib
        (sample_net [ascii_bytes garbled_line @ [10], ascii_bytes fix_line @ [10]]) location0))
     = Some (JStr (lit ''Invalid JSON: not json''))"
proof -
  let ?two = "[ascii_bytes garbled_line @ [10], ascii_bytes fix_line @ [10]]"
  let ?c = "location0\<lparr>socket := Some Socket,
             trace := [EvSocket, EvConnect, EvSend (ascii_bytes request_text @ [10])]\<rparr>"
  have first: "feed sample_lib (sample_net []) (ascii_bytes garbled_line @ [10])
       (location0\<lparr>socket := Some Socket\<rparr>)
     = Done (location0\<lparr>socket := Some Socket,
               error := Some (JStr (lit ''Invalid JSON: not json''))\<rparr>)"
    by (simp add: location0_fields feed_garbled_line)
  have "receive_loop sample_lib (sample_net ?two) ?two Eof ?c
        = Done (location0\<lparr>socket := None,
               trace := [EvSocket, EvConnect, EvSend (ascii_bytes request_text @ [10]), EvRecv,
                         EvRecv, EvClose True],
               error := Some (JStr (lit ''Invalid JSON: not json'')),
               event_stop := True, result := Some fix_value\<rparr>)"
    by (simp add: location0_fields feed_garbled_line
        feed_fix_line [where p = "lit ''network''" and r = "lit ''once''"])
  from run_location0 [OF this] first show ?thesis
    by (simp add: disconnect_eq location0_fields)
qed


text \<open>
  The handlers raise no \<open>JSONDecodeError\<close>, so the \<open>except\<close> clause of \<open>_process_line\<close>
  only catches the one of \<open>json.loads\<close>. A handler that changes the error also closes the
  connection, and the permission loop, once the connection is closed, leaves it closed.
\<close>

lemma permissions_loop_raises:
  "permissions_loop lib net perms st = Raised e s \<Longrightarrow> e \<noteq> JSONDecodeError"
proof (induction perms arbitrary: st)
  case Nil
  then show ?case by simp
next
  case (Cons p ps)
  then show ?case
    by (auto simp: py_getitem_def disconnect_eq split: sum.splits json.splits option.splits
        if_splits)
qed

lemma handle_response_raises:
  "handle_response lib net d st = Raised e s \<Longrightarrow> e \<noteq> JSONDecodeError"
  by (auto simp: handle_response_def handle_error_def handle_permissions_def handle_data_def
      py_contains_def py_getitem_def py_iter_def disconnect_eq
      dest: permissions_loop_raises
      split: sum.splits json.splits option.splits if_splits command.splits)

lemma permissions_loop_stays_closed:
  "event_stop st \<Longrightarrow> socket st = None
     \<Longrightarrow> event_stop (state_of (permissions_loop lib net perms st))
         \<and> socket (state_of (permissions_loop lib net perms st)) = None"
proof (induction perms arbitrary: st)
  case Nil
  then show ?case by simp
next
  case (Cons p ps)
  then show ?case
    by (auto simp: disconnect_eq split: sum.splits)
qed

lemma permissions_loop_error:
  "error (state_of (permissions_loop lib net perms st)) = error st
     \<or> (event_stop (state_of (permissions_loop lib net perms st))
         \<and> socket (state_of (permissions_loop lib net perms st)) = None)"
proof (induction perms arbitrary: st)
  case Nil
  show ?case by simp
next
  case (Cons p ps)
  show ?case
  proof (cases "py_getitem p (lit ''permission'')")
    case (Inl e)
    then show ?thesis by simp
  next
    case name: (Inr n)
    show ?thesis
    proof (cases "py_getitem p (lit ''granted'')")
      case (Inl e)
      with name show ?thesis by simp
    next
      case (Inr g)
      show ?thesis
      proof (cases "py_truthy g")
        case True
        with name Inr Cons.IH [of st] show ?thesis by simp
      next
        case False
        with name Inr show ?thesis
          using permissions_loop_stays_closed [of
              "st\<lparr>error := Some (JStr (lit ''Permission denied: '' @ py_format lib n)),
                  socket := None, event_stop := True,
                  trace := trace st
                    @ (case socket st of None \<Rightarrow> [] | Some s \<Rightarrow> [EvClose True])\<rparr>" lib net ps]
          by (simp add: disconnect_eq)
      qed
    qed
  qed
qed

lemma handle_response_error:
  "error (state_of (handle_response lib net d st)) = error st
     \<or> (event_stop (state_of (handle_response lib net d st))
         \<and> socket (state_of (handle_response lib net d st)) = None)"
  using permissions_loop_error [of lib net _ st]
  by (auto simp: handle_response_def handle_error_def handle_permissions_def handle_data_def
      disconnect_eq split: sum.splits command.splits)

text \<open>
  Claim C1, amended. When the dispatch of a line that is JSON returns with the error
  changed (the error handler, or the permission handler at a permission that is not
  granted), the stop flag is set and no socket is stored, and the receive loop makes no
  further read, whatever reads are still to come. (A line that is not JSON sets the error
  and closes nothing, see above.) In every case \<open>run\<close> ends with the stop flag set and no
  socket stored.
\<close>

theorem error_from_a_dispatched_line_closes:
  assumes "loads lib line = Some d"
    and "process_line lib net line st = Done st'"
    and "error st' \<noteq> error st"
  shows "event_stop st' \<and> socket st' = None
         \<and> receive_loop lib net chunks fin st' = Done st'
         \<and> (\<exists>s. run lib net st = Done s \<and> event_stop s \<and> socket s = None)"
proof -
  have "handle_response lib net d st = Done st'"
  proof (cases "handle_response lib net d st")
    case (Done s)
    with assms(1,2) show ?thesis by (simp add: process_line_def)
  next
    case (Raised e s)
    then have "e \<noteq> JSONDecodeError" by (rule handle_response_raises)
    with Raised assms(1,2) show ?thesis by (simp add: process_line_def)
  qed
  with handle_response_error [of lib net d st] assms(3)
  have closed: "event_stop st' \<and> socket st' = None" by simp
  then have "receive_loop lib net chunks fin st' = Done st'"
    by (simp add: receive_loop_stopped)
  with closed run_returns [of lib net st] show ?thesis by simp
qed


section \<open>The claims on the sample conversations\<close>

text \<open>
  Claim C3 on a sample: the line \<open>not json\<close> and the line
  \<open>{"latitude":1.0,"longitude":2.0}\<close> in one read, on a connected \<open>location0\<close>. The first
  line sets the error, the second is still dispatched and becomes the result.
\<close>

theorem invalid_json_line_is_recoverable_witness:
  "feed sample_lib (sample_net [])
     (ascii_bytes garbled_line @ 10 # ascii_bytes fix_line @ [10])
     (location0\<lparr>socket := Some Socket\<rparr>)
   = Done (location0\<lparr>socket := None, trace := [EvClose True],
             error := Some (JStr (lit ''Invalid JSON: not json'')),
             event_stop := True, result := Some fix_value\<rparr>)"
proof -
  let ?st = "location0\<lparr>socket := Some Socket\<rparr>"
  have h1: "10 \<notin> set (ascii_bytes garbled_line)"
    by (rule sample_framing)
  have h2: "utf8_decode (data ?st @ ascii_bytes garbled_line @ [10]) = Some (lit garbled_line @ [10])"
    by (simp add: location0_fields sample_decode)
  have h3: "loads sample_lib (strip (lit garbled_line @ [10])) = None"
    by (simp add: sample_strip sample_loads)
  have h4: "\<not> event_stop ?st" and h5: "socket ?st = Some Socket"
    by (simp_all add: location0_fields)
  from invalid_json_line_is_recoverable [OF h1 h2 h3 h4 h5, of "sample_net []"
      "ascii_bytes fix_line @ [10]"]
  have "feed sample_lib (sample_net [])
          (ascii_bytes garbled_line @ 10 # ascii_bytes fix_line @ [10]) ?st
        = feed sample_lib (sample_net []) (ascii_bytes fix_line @ [10])
            (?st\<lparr>data := [],
                 error := Some (JStr (lit ''Invalid JSON: '' @ strip (lit garbled_line @ [10])))\<rparr>)"
    by blast
  then show ?thesis
    by (simp add: sample_strip sample_errors location0_fields
        feed_fix_line [where p = "lit ''network''" and r = "lit ''once''"])
qed

text \<open>
  Claim C10 on a sample: three records, of which the first and the third are not
  granted. The error names the third.
\<close>

theorem last_denied_permission_wins_witness:
  "handle_permissions sample_lib (sample_net [])
     (JArr [JObj [(lit ''permission'', JStr (lit ''CAMERA'')), (lit ''granted'', JBool False)],
            JObj [(lit ''permission'', JStr (lit ''LOCATION'')), (lit ''granted'', JBool True)],
            JObj [(lit ''permission'', JStr (lit ''CONTACTS'')), (lit ''granted'', JBool False)]])
     (location0\<lparr>socket := Some Socket\<rparr>)
   = Done (location0\<lparr>socket := None, trace := [EvClose True],
             error := Some (JStr (lit ''Permission denied: CONTACTS'')), event_stop := True\<rparr>)"
proof -
  let ?perms = "[JObj [(lit ''permission'', JStr (lit ''CAMERA'')), (lit ''granted'', JBool False)],
            JObj [(lit ''permission'', JStr (lit ''LOCATION'')), (lit ''granted'', JBool True)],
            JObj [(lit ''permission'', JStr (lit ''CONTACTS'')), (lit ''granted'', JBool False)]]"
  let ?recs = "[(JStr (lit ''CAMERA''), JBool False), (JStr (lit ''LOCATION''), JBool True),
                (JStr (lit ''CONTACTS''), JBool False)]"
  let ?denied = "[(JStr (lit ''CAMERA''), JBool False), (JStr (lit ''CONTACTS''), JBool False)]"
  have h1: "map (\<lambda>p. py_getitem p (lit ''permission'')) ?perms = map (\<lambda>r. Inr (fst r)) ?recs"
    by (simp add: py_getitem_def lit_def)
  have h2: "map (\<lambda>p. py_getitem p (lit ''granted'')) ?perms = map (\<lambda>r. Inr (snd r)) ?recs"
    by (simp add: py_getitem_def lit_def)
  have h3: "filter (\<lambda>r. \<not> py_truthy (snd r)) ?recs = ?denied"
    by (simp add: py_truthy_def)
  have h4: "1 < length ?denied"
    by simp
  from last_denied_permission_wins [OF h1 h2 h3 h4, of sample_lib "sample_net []"
      "location0\<lparr>socket := Some Socket\<rparr>"]
  show ?thesis
    by (simp add: py_format_def lit_def location0_fields)
qed


text \<open>
  Claim C1, amended, on a sample: the line \<open>{"error":"denied"}\<close> on a connected
  \<open>location0\<close> sets the error and closes the connection, and the receive loop then leaves
  a further read with a location line unread.
\<close>

theorem error_from_a_dispatched_line_closes_witness:
  "process_line sample_lib (sample_net []) (lit error_line) (location0\<lparr>socket := Some Socket\<rparr>)
     = Done (location0\<lparr>socket := None, trace := [EvClose True],
               error := Some (JStr (lit ''denied'')), event_stop := True\<rparr>)
   \<and> receive_loop sample_lib (sample_net []) [ascii_bytes fix_line @ [10]] Eof
       (location0\<lparr>socket := None, trace := [EvClose True],
               error := Some (JStr (lit ''denied'')), event_stop := True\<rparr>)
     = Done (location0\<lparr>socket := None, trace := [EvClose True],
               error := Some (JStr (lit ''denied'')), event_stop := True\<rparr>)"
proof -
  let ?st = "location0\<lparr>socket := Some Socket\<rparr>"
  let ?st' = "location0\<lparr>socket := None, trace := [EvClose True],
               error := Some (JStr (lit ''denied'')), event_stop := True\<rparr>"
  have h1: "loads sample_lib (lit error_line) = Some error_value"
    by (rule sample_loads)
  have h2: "process_line sample_lib (sample_net []) (lit error_line) ?st = Done ?st'"
    using process_line_error [OF sample_loads(4) [unfolded error_value_def], of
        "JStr (lit ''denied'')" "sample_net []" ?st]
    by (simp add: location0_fields)
  have h3: "error ?st' \<noteq> error ?st"
    by (simp add: location0_fields)
  from error_from_a_dispatched_line_closes [OF h1 h2 h3, of "[ascii_bytes fix_line @ [10]]" Eof]
    h2 show ?thesis by simp
qed

section \<open>Calling \<open>disconnect\<close> more than once\<close>

text \<open>
  No handler, no line and no read changes \<open>accounted\<close>: a call of \<open>close\<close> is always paid for
  by the socket that was stored. So \<open>run\<close> calls \<open>close\<close> once when it has created a socket,
  and otherwise only for a socket that was stored before.
\<close>

lemma closes_append [simp]: "closes (xs @ ys) = closes xs + closes ys"
  by (induction xs rule: closes.induct) simp_all

lemma accounted_disconnect [simp]: "accounted (state_of (disconnect net st)) = accounted st"
  by (simp add: disconnect_eq accounted_def split: option.split)

lemma accounted_permissions_loop [simp]:
  "accounted (state_of (permissions_loop lib net perms st)) = accounted st"
proof (induction perms arbitrary: st)
  case Nil
  show ?case by simp
next
  case (Cons p ps)
  have d: "accounted (st\<lparr>error := e, socket := None, event_stop := True,
             trace := trace st
               @ (case socket st of None \<Rightarrow> [] | Some s \<Rightarrow> [EvClose True])\<rparr>) = accounted st" for e
    by (simp add: accounted_def split: option.split)
  show ?case
    by (auto simp: Cons.IH disconnect_eq d split: sum.split)
qed

lemma accounted_handle_response [simp]:
  "accounted (state_of (handle_response lib net d st)) = accounted st"
proof -
  have e: "accounted (st\<lparr>error := x\<rparr>) = accounted st" for x
    by (simp add: accounted_def)
  have r: "accounted (st\<lparr>result := x\<rparr>) = accounted st" for x
    by (simp add: accounted_def)
  have "accounted (state_of (disconnect net (st\<lparr>error := x\<rparr>))) = accounted st" for x
    by (simp only: accounted_disconnect e)
  moreover have "accounted (state_of (disconnect net (st\<lparr>result := x\<rparr>))) = accounted st" for x
    by (simp only: accounted_disconnect r)
  ultimately show ?thesis
    by (auto simp: handle_response_def handle_error_def handle_permissions_def handle_data_def
        split: sum.split command.split)
qed

lemma accounted_process_line [simp]:
  "accounted (state_of (process_line lib net line st)) = accounted st"
proof (cases "loads lib line")
  case None
  then show ?thesis by (simp add: process_line_def accounted_def)
next
  case (Some d)
  have "accounted (state_of (handle_response lib net d st)) = accounted st"
    by simp
  with Some show ?thesis
    by (cases "handle_response lib net d st") (simp_all add: process_line_def accounted_def)
qed

lemma accounted_feed [simp]: "accounted (state_of (feed lib net bs st)) = accounted st"
proof (induction bs arbitrary: st)
  case Nil
  show ?case by simp
next
  case (Cons b bs)
  have d: "accounted (s\<lparr>data := x\<rparr>) = accounted s" for s x
    by (simp add: accounted_def)
  have step: "accounted (state_of (and_then (process_line lib net line s) (feed lib net bs)))
                = accounted s" for line s
  proof (cases "process_line lib net line s")
    case (Done s1)
    with accounted_process_line [of lib net line s] show ?thesis by (simp add: Cons.IH)
  next
    case (Raised e s1)
    with accounted_process_line [of lib net line s] show ?thesis by simp
  qed
  show ?case
    by (simp add: Let_def Cons.IH step d split: option.split)
qed

lemma accounted_receive_loop [simp]:
  "accounted (state_of (receive_loop lib net chunks fin st)) = accounted st"
proof (induction chunks arbitrary: st)
  case Nil
  show ?case by (simp add: Let_def accounted_def split: option.split recv_end.split)
next
  case (Cons c cs)
  have t: "accounted (s\<lparr>trace := trace s @ [EvRecv]\<rparr>) = accounted s" for s
    by (simp add: accounted_def)
  have e: "accounted (s\<lparr>error := x\<rparr>) = accounted s" for s x
    by (simp add: accounted_def)
  have f: "accounted (state_of (feed lib net c (st\<lparr>trace := trace st @ [EvRecv]\<rparr>))) = accounted st"
    by (simp add: t)
  show ?case
    using f
    by (cases "feed lib net c (st\<lparr>trace := trace st @ [EvRecv]\<rparr>)")
       (simp_all add: Let_def Cons.IH t e split: option.split)
qed


lemma accounted_run_body:
  "accounted (state_of (run_body lib net st))
     = (if socket_raises net = None then closes (trace st) + 1 else accounted st)"
proof -
  have recv: "accounted (state_of (and_then r (receive_responses lib net))) = accounted (state_of r)" for r
    by (cases r) (simp_all add: receive_responses_def split: option.split)
  have send: "accounted (state_of (send_request lib net s)) = accounted s" for s
    by (simp add: send_request_def accounted_def Let_def split: option.split sum.split)
  have both: "accounted (state_of (and_then (and_then r (send_request lib net))
                 (receive_responses lib net))) = accounted (state_of r)" for r
    by (cases r) (simp_all add: recv send)
  have "accounted (state_of (connect net st))
          = (if socket_raises net = None then closes (trace st) + 1 else accounted st)"
    by (simp add: connect_def accounted_def Let_def split: option.split)
  then show ?thesis
    by (simp add: run_body_def both)
qed

lemma closes_run:
  "closes (trace (state_of (run lib net st)))
     = (if socket_raises net = None then closes (trace st) + 1 else accounted st)"
proof -
  have ex: "\<exists>s. run_except lib r = Done s \<and> accounted s = accounted (state_of r)" for r
    by (cases r) (auto simp: run_except_def accounted_def)
  obtain s where s: "run_except lib (run_body lib net st) = Done s"
    "accounted s = accounted (state_of (run_body lib net st))"
    using ex by blast
  have "closes (trace (state_of (disconnect net s))) = accounted s"
    by (simp add: disconnect_eq accounted_def split: option.split)
  with s show ?thesis
    by (simp add: run_def accounted_run_body)
qed

lemma disconnect_twice: "and_then (disconnect net st) (disconnect net) = disconnect net st"
  by (simp add: disconnect_eq)

text \<open>
  Claim C9, for calls that follow one another. \<open>disconnect\<close> never raises, whatever
  \<open>close\<close> does: it returns the object with the stop flag set and no socket stored, and has
  called \<open>close\<close> exactly when a socket was stored, with the stop flag already set at that
  call (\<open>EvClose True\<close>). Any number of further calls change nothing, so the socket is
  closed at most once. A call after \<open>run\<close> has ended changes nothing, and when \<open>disconnect\<close>
  is called before \<open>run\<close>, \<open>run\<close> calls \<open>close\<close> exactly once if it creates a socket and not
  at all otherwise.
\<close>

theorem disconnect_is_idempotent:
  "disconnect net st =
     Done (st\<lparr>socket := None, event_stop := True,
              trace := trace st @ (case socket st of None \<Rightarrow> [] | Some s \<Rightarrow> [EvClose True])\<rparr>)
   \<and> ((\<lambda>r. and_then r (disconnect net)) ^^ n) (disconnect net st) = disconnect net st
   \<and> and_then (run lib net st) (disconnect net) = run lib net st
   \<and> closes (trace (state_of (run lib net (state_of (disconnect net st)))))
       = closes (trace (state_of (disconnect net st)))
         + (if socket_raises net = None then 1 else 0)"
proof -
  have again: "((\<lambda>r. and_then r (disconnect net)) ^^ n) (disconnect net st) = disconnect net st"
    by (induction n) (simp_all add: disconnect_twice)
  obtain s where s: "run lib net st = Done s" "event_stop s" "socket s = None"
    using run_returns by blast
  have "disconnect net s = Done s"
    using s(2,3) by (cases s) (simp add: disconnect_eq)
  with s(1) have after: "and_then (run lib net st) (disconnect net) = run lib net st"
    by simp
  have "accounted (state_of (disconnect net st)) = closes (trace (state_of (disconnect net st)))"
    by (simp add: disconnect_eq accounted_def)
  then have before: "closes (trace (state_of (run lib net (state_of (disconnect net st)))))
       = closes (trace (state_of (disconnect net st)))
         + (if socket_raises net = None then 1 else 0)"
    by (simp add: closes_run)
  from again after before show ?thesis
    by (simp add: disconnect_eq)
qed


end
